theory Spec2Isabelle
  imports Complex_Main
begin

unbundle bit_operations_syntax

section \<open>Layer model\<close>

text \<open>
  The layer tree of \<^verbatim>\<open>@genart-dev/format\<close> as the design modules use it. JavaScript
  numbers are modelled as reals, strings as \<open>string\<close>, an optional field as an
  \<open>option\<close>. A property bag is an association list in insertion order.
\<close>

datatype LayerPropertyValue =
    PString string
  | PNumber real
  | PBoolean bool
  | PPoint real real
  | PSize real real
  | PFont string real string
  | PPath "(real \<times> real \<times> real option) list" bool
  | PGradient string "real option" "(real \<times> real) option" "real option" "(real \<times> string) list"
  | PNull

type_synonym LayerProperties = "(string \<times> LayerPropertyValue) list"

type_synonym BlendMode = string

record LayerTransform =
  x :: real
  y :: real
  width :: real
  height :: real
  rotation :: real
  scaleX :: real
  scaleY :: real
  anchorX :: real
  anchorY :: real

text \<open>The scalar fields of a layer; the field \<open>id\<close> is \<open>layerId\<close>, \<open>type\<close> is \<open>layerType\<close>.\<close>

record LayerFields =
  layerId :: string
  layerType :: string
  name :: string
  visible :: bool
  locked :: bool
  opacity :: real
  blendMode :: BlendMode
  transform :: LayerTransform
  properties :: LayerProperties

text \<open>A layer is its fields and the optional \<open>children\<close> array.\<close>

datatype DesignLayer = Layer (attrs: LayerFields) (children: "DesignLayer list option")

datatype DesignChangeType =
    LayerAdded
  | LayerRemoved
  | LayerUpdated
  | LayerReordered
  | SelectionChanged
  | CompositeChanged

section \<open>Layer stack (layer-stack.ts)\<close>

subsection \<open>uuid\<close>

text \<open>
  \<open>Math.random\<close> is a sequence of reals, the \<open>k\<close>-th call returning \<open>R k\<close>; the
  number of calls made so far is threaded through. \<open>(Math.random() * 16) | 0\<close> truncates
  to an integer, which on the non-negative values of \<open>Math.random\<close> is the floor.
  \<open>toString16\<close> is \<open>Number.prototype.toString(16)\<close> on a natural number.
\<close>

definition hexDigit :: "nat \<Rightarrow> char" where
  "hexDigit d = ''0123456789abcdef'' ! d"

fun toString16 :: "nat \<Rightarrow> string" where
  "toString16 v = (if v < 16 then [hexDigit v] else toString16 (v div 16) @ [hexDigit (v mod 16)])"

declare toString16.simps [simp del]

text \<open>The callback of \<open>replace(/[xy]/g, ...)\<close> at one matched character.\<close>

definition uuidChar :: "real \<Rightarrow> char \<Rightarrow> string" where
  "uuidChar rnd c =
     (let r = nat \<lfloor>rnd * 16\<rfloor>;
          v = (if c = CHR ''x'' then r else (r AND 3) OR 8)
      in toString16 v)"

fun replaceXY :: "(nat \<Rightarrow> real) \<Rightarrow> nat \<Rightarrow> string \<Rightarrow> string \<times> nat" where
  "replaceXY R k [] = ([], k)"
| "replaceXY R k (c # cs) =
     (if c = CHR ''x'' \<or> c = CHR ''y''
      then (let (rest, k') = replaceXY R (Suc k) cs in (uuidChar (R k) c @ rest, k'))
      else (let (rest, k') = replaceXY R k cs in (c # rest, k')))"

definition uuid :: "(nat \<Rightarrow> real) \<Rightarrow> nat \<Rightarrow> string \<times> nat" where
  "uuid R k = replaceXY R k ''xxxxxxxx-xxxx-4xxx-yxxx-xxxxxxxxxxxx''"

subsection \<open>toMutable and deepCloneLayer\<close>

fun toMutable :: "DesignLayer \<Rightarrow> DesignLayer" where
  "toMutable (Layer a ch) =
     Layer \<lparr> layerId = layerId a, layerType = layerType a, name = name a,
             visible = visible a, locked = locked a, opacity = opacity a,
             blendMode = blendMode a, transform = transform a,
             properties = properties a \<rparr>
       (case ch of None \<Rightarrow> None | Some cs \<Rightarrow> Some (map toMutable cs))"

text \<open>
  \<open>deepCloneLayer\<close> draws the clone's id first and then clones the children left to
  right, so the random sequence is consumed in pre-order.
\<close>

fun deepCloneLayer :: "(nat \<Rightarrow> real) \<Rightarrow> nat \<Rightarrow> DesignLayer \<Rightarrow> DesignLayer \<times> nat"
  and deepCloneLayers :: "(nat \<Rightarrow> real) \<Rightarrow> nat \<Rightarrow> DesignLayer list \<Rightarrow> DesignLayer list \<times> nat" where
  "deepCloneLayer R k (Layer a ch) =
     (let (newId, k1) = uuid R k;
          clone = \<lparr> layerId = newId, layerType = layerType a, name = name a @ '' copy'',
                    visible = visible a, locked = locked a, opacity = opacity a,
                    blendMode = blendMode a, transform = transform a,
                    properties = properties a \<rparr>
      in case ch of
           None \<Rightarrow> (Layer clone None, k1)
         | Some cs \<Rightarrow> (let (cs', k2) = deepCloneLayers R k1 cs in (Layer clone (Some cs'), k2)))"
| "deepCloneLayers R k [] = ([], k)"
| "deepCloneLayers R k (c # cs) =
     (let (c', k1) = deepCloneLayer R k c;
          (cs', k2) = deepCloneLayers R k1 cs
      in (c' # cs', k2))"

subsection \<open>The stack and its operations\<close>

text \<open>
  The closure state of \<open>createLayerStack\<close>: the \<open>layers\<close> array, the calls made to
  \<open>onChange\<close> so far (oldest first), and the random source with its position.
  An operation that can throw returns the error or its result together with the state
  left behind, so that what a failed call did to the state is visible.
\<close>

record LayerStack =
  layers :: "DesignLayer list"
  changes :: "DesignChangeType list"
  random :: "nat \<Rightarrow> real"
  drawn :: nat

datatype LayerError = NotFound string

definition createLayerStack :: "DesignLayer list \<Rightarrow> (nat \<Rightarrow> real) \<Rightarrow> LayerStack" where
  "createLayerStack initialLayers R =
     \<lparr> layers = map toMutable initialLayers, changes = [], random = R, drawn = 0 \<rparr>"

definition onChange :: "DesignChangeType \<Rightarrow> LayerStack \<Rightarrow> LayerStack" where
  "onChange t s = s\<lparr> changes := changes s @ [t] \<rparr>"

text \<open>\<open>Array.prototype.findIndex\<close>; \<open>None\<close> stands for the result \<open>-1\<close>.\<close>

fun arrayFindIndex :: "('a \<Rightarrow> bool) \<Rightarrow> 'a list \<Rightarrow> nat option" where
  "arrayFindIndex P [] = None"
| "arrayFindIndex P (v # vs) =
     (if P v then Some 0 else map_option Suc (arrayFindIndex P vs))"

text \<open>\<open>xs.splice(i, 0, v)\<close> and \<open>xs.splice(i, 1)\<close> for an index \<open>i \<ge> 0\<close>.\<close>

definition spliceInsert :: "nat \<Rightarrow> 'a \<Rightarrow> 'a list \<Rightarrow> 'a list" where
  "spliceInsert i v vs = take i vs @ [v] @ drop i vs"

definition spliceRemove :: "nat \<Rightarrow> 'a list \<Rightarrow> 'a list" where
  "spliceRemove i vs = take i vs @ drop (Suc i) vs"

definition hasId :: "string \<Rightarrow> DesignLayer \<Rightarrow> bool" where
  "hasId layerId' l = (layerId (attrs l) = layerId')"

definition findIndex :: "string \<Rightarrow> LayerStack \<Rightarrow> LayerError + nat" where
  "findIndex layerId' s =
     (case arrayFindIndex (hasId layerId') (layers s) of
        None \<Rightarrow> Inl (NotFound layerId')
      | Some idx \<Rightarrow> Inr idx)"

definition getAll :: "LayerStack \<Rightarrow> DesignLayer list" where
  "getAll s = layers s"

definition get :: "string \<Rightarrow> LayerStack \<Rightarrow> DesignLayer option" where
  "get layerId' s = find (hasId layerId') (layers s)"

definition add :: "DesignLayer \<Rightarrow> int option \<Rightarrow> LayerStack \<Rightarrow> LayerStack" where
  "add layer index s =
     (let mutable = toMutable layer in
      onChange LayerAdded
        (case index of
           Some i \<Rightarrow>
             (if i \<ge> 0 \<and> i \<le> int (length (layers s))
              then s\<lparr> layers := spliceInsert (nat i) mutable (layers s) \<rparr>
              else s\<lparr> layers := layers s @ [mutable] \<rparr>)
         | None \<Rightarrow> s\<lparr> layers := layers s @ [mutable] \<rparr>))"

definition remove :: "string \<Rightarrow> LayerStack \<Rightarrow> bool \<times> LayerStack" where
  "remove layerId' s =
     (case arrayFindIndex (hasId layerId') (layers s) of
        None \<Rightarrow> (False, s)
      | Some idx \<Rightarrow>
          (True, onChange LayerRemoved (s\<lparr> layers := spliceRemove idx (layers s) \<rparr>)))"

text \<open>
  Object spread \<open>{ ...a, ...b }\<close>: the entries of \<open>a\<close>, each key of \<open>b\<close> overwriting in
  place or appended. An entry of a partial bag whose value is \<open>undefined\<close> is \<open>None\<close>.
\<close>

fun objSet :: "string \<Rightarrow> 'v \<Rightarrow> (string \<times> 'v) list \<Rightarrow> (string \<times> 'v) list" where
  "objSet k v [] = [(k, v)]"
| "objSet k v ((k', v') # kvs) =
     (if k' = k then (k, v) # kvs else (k', v') # objSet k v kvs)"

definition objSpread :: "(string \<times> 'v) list \<Rightarrow> (string \<times> 'v) list \<Rightarrow> (string \<times> 'v) list" where
  "objSpread a b = foldl (\<lambda>acc (k, v). objSet k v acc) a b"

definition filterDefined :: "(string \<times> 'v option) list \<Rightarrow> (string \<times> 'v) list" where
  "filterDefined entries =
     foldl (\<lambda>filtered (k, v). case v of None \<Rightarrow> filtered | Some w \<Rightarrow> objSet k w filtered)
       [] entries"

definition setFields :: "(LayerFields \<Rightarrow> LayerFields) \<Rightarrow> DesignLayer \<Rightarrow> DesignLayer" where
  "setFields f l = Layer (f (attrs l)) (children l)"

definition updateProperties ::
  "string \<Rightarrow> (string \<times> LayerPropertyValue option) list \<Rightarrow> LayerStack
     \<Rightarrow> (LayerError + unit) \<times> LayerStack" where
  "updateProperties layerId' props s =
     (case findIndex layerId' s of
        Inl e \<Rightarrow> (Inl e, s)
      | Inr idx \<Rightarrow>
          (let layer = layers s ! idx;
               filtered = filterDefined props;
               layer' = setFields (\<lambda>a. a\<lparr> properties := objSpread (properties a) filtered \<rparr>) layer
           in (Inr (), onChange LayerUpdated (s\<lparr> layers := (layers s)[idx := layer'] \<rparr>))))"

text \<open>A \<open>Partial<LayerTransform>\<close>: a field that is absent is \<open>None\<close>.\<close>

record PartialTransform =
  px :: "real option"
  py :: "real option"
  pwidth :: "real option"
  pheight :: "real option"
  protation :: "real option"
  pscaleX :: "real option"
  pscaleY :: "real option"
  panchorX :: "real option"
  panchorY :: "real option"

definition orElse :: "'a option \<Rightarrow> 'a \<Rightarrow> 'a" where
  "orElse v d = (case v of None \<Rightarrow> d | Some w \<Rightarrow> w)"

definition spreadTransform :: "LayerTransform \<Rightarrow> PartialTransform \<Rightarrow> LayerTransform" where
  "spreadTransform t p =
     \<lparr> x = orElse (px p) (x t), y = orElse (py p) (y t),
       width = orElse (pwidth p) (width t), height = orElse (pheight p) (height t),
       rotation = orElse (protation p) (rotation t),
       scaleX = orElse (pscaleX p) (scaleX t), scaleY = orElse (pscaleY p) (scaleY t),
       anchorX = orElse (panchorX p) (anchorX t), anchorY = orElse (panchorY p) (anchorY t) \<rparr>"

definition updateTransform ::
  "string \<Rightarrow> PartialTransform \<Rightarrow> LayerStack \<Rightarrow> (LayerError + unit) \<times> LayerStack" where
  "updateTransform layerId' p s =
     (case findIndex layerId' s of
        Inl e \<Rightarrow> (Inl e, s)
      | Inr idx \<Rightarrow>
          (let layer = layers s ! idx;
               layer' = setFields (\<lambda>a. a\<lparr> transform := spreadTransform (transform a) p \<rparr>) layer
           in (Inr (), onChange LayerUpdated (s\<lparr> layers := (layers s)[idx := layer'] \<rparr>))))"

definition updateBlend ::
  "string \<Rightarrow> BlendMode option \<Rightarrow> real option \<Rightarrow> LayerStack
     \<Rightarrow> (LayerError + unit) \<times> LayerStack" where
  "updateBlend layerId' blendMode' opacity' s =
     (case findIndex layerId' s of
        Inl e \<Rightarrow> (Inl e, s)
      | Inr idx \<Rightarrow>
          (let layer = layers s ! idx;
               layer1 = (case blendMode' of None \<Rightarrow> layer
                         | Some b \<Rightarrow> setFields (\<lambda>a. a\<lparr> blendMode := b \<rparr>) layer);
               layer2 = (case opacity' of None \<Rightarrow> layer1
                         | Some v \<Rightarrow> setFields (\<lambda>a. a\<lparr> opacity := v \<rparr>) layer1)
           in (Inr (), onChange LayerUpdated (s\<lparr> layers := (layers s)[idx := layer2] \<rparr>))))"

definition reorder :: "string \<Rightarrow> int \<Rightarrow> LayerStack \<Rightarrow> (LayerError + unit) \<times> LayerStack" where
  "reorder layerId' newIndex s =
     (case findIndex layerId' s of
        Inl e \<Rightarrow> (Inl e, s)
      | Inr oldIndex \<Rightarrow>
          (let clamped = max 0 (min newIndex (int (length (layers s)) - 1)) in
           if int oldIndex = clamped then (Inr (), s)
           else
             (let layer = layers s ! oldIndex;
                  removed = spliceRemove oldIndex (layers s)
              in (Inr (), onChange LayerReordered
                            (s\<lparr> layers := spliceInsert (nat clamped) layer removed \<rparr>)))))"

definition duplicate :: "string \<Rightarrow> LayerStack \<Rightarrow> (LayerError + string) \<times> LayerStack" where
  "duplicate layerId' s =
     (case findIndex layerId' s of
        Inl e \<Rightarrow> (Inl e, s)
      | Inr idx \<Rightarrow>
          (let original = layers s ! idx;
               (clone, k) = deepCloneLayer (random s) (drawn s) original
           in (Inr (layerId (attrs clone)),
               onChange LayerAdded
                 (s\<lparr> layers := spliceInsert (idx + 1) clone (layers s), drawn := k \<rparr>))))"

definition count :: "LayerStack \<Rightarrow> nat" where
  "count s = length (layers s)"

section \<open>Compositor (compositor.ts)\<close>

subsection \<open>Layer types and the registry\<close>

datatype LayerCategory =
    CText | CShape | CImage | CFilter | CAdjustment | CGuide | CDraw | CGroup

text \<open>
  The data of a \<open>LayerTypeDefinition\<close>. Its \<open>render\<close> function belongs to a plugin; a
  call of it is observed the way the repository's tests observe it, by a spy that records
  what it was called with. \<open>resolveLayerType\<close> returns \<open>None\<close> for \<open>null\<close>.
\<close>

record LayerTypeDefinition =
  typeId :: string
  displayName :: string
  icon :: string
  category :: LayerCategory
  propertyEditorId :: string

type_synonym PluginRegistry = "string \<Rightarrow> LayerTypeDefinition option"

subsection \<open>The drawing context\<close>

text \<open>
  The current transformation matrix \<open>(a, b, c, d, e, f)\<close> maps \<open>(u, v)\<close> to
  \<open>(a u + c v + e, b u + d v + f)\<close>. \<open>translate\<close>, \<open>rotate\<close> and \<open>scale\<close> multiply it on
  the right, as the canvas does.
\<close>

type_synonym Matrix = "real \<times> real \<times> real \<times> real \<times> real \<times> real"

definition matIdentity :: Matrix where
  "matIdentity = (1, 0, 0, 1, 0, 0)"

fun matMul :: "Matrix \<Rightarrow> Matrix \<Rightarrow> Matrix" where
  "matMul (a1, b1, c1, d1, e1, f1) (a2, b2, c2, d2, e2, f2) =
     (a1 * a2 + c1 * b2, b1 * a2 + d1 * b2,
      a1 * c2 + c1 * d2, b1 * c2 + d1 * d2,
      a1 * e2 + c1 * f2 + e1, b1 * e2 + d1 * f2 + f1)"

definition matTranslate :: "real \<Rightarrow> real \<Rightarrow> Matrix" where
  "matTranslate tx ty = (1, 0, 0, 1, tx, ty)"

definition matRotate :: "real \<Rightarrow> Matrix" where
  "matRotate angle = (cos angle, sin angle, - sin angle, cos angle, 0, 0)"

definition matScale :: "real \<Rightarrow> real \<Rightarrow> Matrix" where
  "matScale sx sy = (sx, 0, 0, sy, 0, 0)"

record LayerBounds =
  boundsX :: real
  boundsY :: real
  boundsWidth :: real
  boundsHeight :: real
  boundsRotation :: real
  boundsScaleX :: real
  boundsScaleY :: real

text \<open>
  What the context's method spies and the render spies record, in call order. A render
  call records the type it was made on, the property bag and bounds it received, and the
  alpha, composite operation and matrix of the context at the moment of the call.
\<close>

datatype CtxCall =
    DrawImage real real
  | Save
  | Restore
  | Translate real real
  | Rotate real
  | Scale real real
  | Render string LayerProperties LayerBounds real string Matrix

text \<open>
  The context: its fields \<open>globalAlpha\<close> and \<open>globalCompositeOperation\<close>, the matrix, the
  stack of states pushed by \<open>save\<close>, and the calls recorded so far. An assignment to a
  field stores the value as it is, as on the context double of the compositor's tests;
  \<open>restore\<close> on an empty stack changes nothing.
\<close>

record Ctx =
  globalAlpha :: real
  globalCompositeOperation :: string
  ctm :: Matrix
  saved :: "(real \<times> string \<times> Matrix) list"
  calls :: "CtxCall list"

definition recordCall :: "CtxCall \<Rightarrow> Ctx \<Rightarrow> Ctx" where
  "recordCall c ctx = ctx\<lparr> calls := calls ctx @ [c] \<rparr>"

definition ctxSave :: "Ctx \<Rightarrow> Ctx" where
  "ctxSave ctx =
     recordCall Save
       (ctx\<lparr> saved := (globalAlpha ctx, globalCompositeOperation ctx, ctm ctx) # saved ctx \<rparr>)"

definition ctxRestore :: "Ctx \<Rightarrow> Ctx" where
  "ctxRestore ctx =
     recordCall Restore
       (case saved ctx of
          [] \<Rightarrow> ctx
        | (al, op, m) # rest \<Rightarrow>
            ctx\<lparr> globalAlpha := al, globalCompositeOperation := op, ctm := m, saved := rest \<rparr>)"

definition ctxTranslate :: "real \<Rightarrow> real \<Rightarrow> Ctx \<Rightarrow> Ctx" where
  "ctxTranslate tx ty ctx =
     recordCall (Translate tx ty) (ctx\<lparr> ctm := matMul (ctm ctx) (matTranslate tx ty) \<rparr>)"

definition ctxRotate :: "real \<Rightarrow> Ctx \<Rightarrow> Ctx" where
  "ctxRotate angle ctx =
     recordCall (Rotate angle) (ctx\<lparr> ctm := matMul (ctm ctx) (matRotate angle) \<rparr>)"

definition ctxScale :: "real \<Rightarrow> real \<Rightarrow> Ctx \<Rightarrow> Ctx" where
  "ctxScale sx sy ctx =
     recordCall (Scale sx sy) (ctx\<lparr> ctm := matMul (ctm ctx) (matScale sx sy) \<rparr>)"

definition ctxDrawImage :: "real \<Rightarrow> real \<Rightarrow> Ctx \<Rightarrow> Ctx" where
  "ctxDrawImage dx dy ctx = recordCall (DrawImage dx dy) ctx"

definition render :: "LayerTypeDefinition \<Rightarrow> LayerProperties \<Rightarrow> LayerBounds \<Rightarrow> Ctx \<Rightarrow> Ctx" where
  "render lt props bounds ctx =
     recordCall (Render (typeId lt) props bounds
                (globalAlpha ctx) (globalCompositeOperation ctx) (ctm ctx)) ctx"

subsection \<open>toCompositeOp, compositeLayer, compositeDesignLayers\<close>

definition toCompositeOp :: "BlendMode \<Rightarrow> string" where
  "toCompositeOp blendMode' = (if blendMode' = ''normal'' then ''source-over'' else blendMode')"

text \<open>The leaf part of \<open>compositeLayer\<close>, from \<open>ctx.save()\<close> to \<open>ctx.restore()\<close>.\<close>

definition renderLeaf :: "LayerTypeDefinition \<Rightarrow> LayerFields \<Rightarrow> Ctx \<Rightarrow> Ctx" where
  "renderLeaf lt a ctx =
     (let ctx1 = ctxSave ctx;
          ctx2 = ctx1\<lparr> globalAlpha := opacity a \<rparr>;
          ctx3 = ctx2\<lparr> globalCompositeOperation := toCompositeOp (blendMode a) \<rparr>;
          t = transform a;
          ax = x t + width t * anchorX t;
          ay = y t + height t * anchorY t;
          ctx4 = ctxTranslate ax ay ctx3;
          ctx5 = (if rotation t \<noteq> 0 then ctxRotate ((rotation t * pi) / 180) ctx4 else ctx4);
          ctx6 = (if scaleX t \<noteq> 1 \<or> scaleY t \<noteq> 1 then ctxScale (scaleX t) (scaleY t) ctx5
                  else ctx5);
          ctx7 = ctxTranslate (- ax) (- ay) ctx6;
          bounds = \<lparr> boundsX = x t, boundsY = y t, boundsWidth = width t,
                     boundsHeight = height t, boundsRotation = rotation t,
                     boundsScaleX = scaleX t, boundsScaleY = scaleY t \<rparr>;
          ctx8 = render lt (properties a) bounds ctx7
      in ctxRestore ctx8)"

text \<open>
  \<open>compositeEach\<close> is the loop \<open>for (const child of ...) compositeLayer(child, ...)\<close>, which
  occurs in \<open>compositeLayer\<close> over the children and in \<open>compositeDesignLayers\<close> over the
  top-level layers. The \<open>resources\<close> argument is handed to every render call unchanged and
  is left out.
\<close>

fun compositeLayer :: "PluginRegistry \<Rightarrow> bool \<Rightarrow> DesignLayer \<Rightarrow> Ctx \<Rightarrow> Ctx"
  and compositeEach :: "PluginRegistry \<Rightarrow> bool \<Rightarrow> DesignLayer list \<Rightarrow> Ctx \<Rightarrow> Ctx" where
  "compositeLayer registry includeGuides (Layer a ch) ctx =
     (if \<not> visible a then ctx
      else
        (let layerType' = registry (layerType a) in
         if \<not> includeGuides \<and> map_option category layerType' = Some CGuide then ctx
         else
           (case ch of
              Some (c # cs) \<Rightarrow>
                (let ctx1 = ctxSave ctx;
                     ctx2 = ctx1\<lparr> globalAlpha := globalAlpha ctx1 * opacity a \<rparr>;
                     ctx3 = ctx2\<lparr> globalCompositeOperation := toCompositeOp (blendMode a) \<rparr>;
                     ctx4 = compositeEach registry includeGuides (c # cs) ctx3
                 in ctxRestore ctx4)
            | _ \<Rightarrow>
                (case layerType' of
                   None \<Rightarrow> ctx
                 | Some lt \<Rightarrow> renderLeaf lt a ctx))))"
| "compositeEach registry includeGuides [] ctx = ctx"
| "compositeEach registry includeGuides (l # ls) ctx =
     compositeEach registry includeGuides ls (compositeLayer registry includeGuides l ctx)"

definition compositeDesignLayers ::
  "DesignLayer list \<Rightarrow> PluginRegistry \<Rightarrow> Ctx \<Rightarrow> bool option \<Rightarrow> Ctx" where
  "compositeDesignLayers layers' registry output includeGuides' =
     (let includeGuides = orElse includeGuides' False;
          output1 = ctxDrawImage 0 0 output
      in compositeEach registry includeGuides layers' output1)"

section \<open>Notions used to state the properties\<close>

text \<open>The ids of a layer and of all its descendants, in pre-order.\<close>

fun allIds :: "DesignLayer \<Rightarrow> string list" where
  "allIds (Layer a ch) =
     layerId a # (case ch of None \<Rightarrow> [] | Some cs \<Rightarrow> concat (map allIds cs))"

definition treeIds :: "DesignLayer list \<Rightarrow> string list" where
  "treeIds ls = concat (map allIds ls)"

definition topIds :: "DesignLayer list \<Rightarrow> string list" where
  "topIds ls = map (\<lambda>l. layerId (attrs l)) ls"

text \<open>Applying a change of fields to every node of a layer's subtree.\<close>

fun mapAttrs :: "(LayerFields \<Rightarrow> LayerFields) \<Rightarrow> DesignLayer \<Rightarrow> DesignLayer" where
  "mapAttrs f (Layer a ch) =
     Layer (f a) (case ch of None \<Rightarrow> None | Some cs \<Rightarrow> Some (map (mapAttrs f) cs))"

definition eraseIds :: "DesignLayer \<Rightarrow> DesignLayer" where
  "eraseIds = mapAttrs (\<lambda>a. a\<lparr> layerId := [] \<rparr>)"

definition suffixNames :: "DesignLayer \<Rightarrow> DesignLayer" where
  "suffixNames = mapAttrs (\<lambda>a. a\<lparr> name := name a @ '' copy'' \<rparr>)"




text \<open>Cutting off the descendants of every invisible layer, at any depth.\<close>

fun conceal :: "DesignLayer \<Rightarrow> DesignLayer" where
  "conceal (Layer a ch) =
     (if \<not> visible a then Layer a None
      else Layer a (case ch of None \<Rightarrow> None | Some cs \<Rightarrow> Some (map conceal cs)))"

text \<open>
  The specification's transform of a leaf on top of a matrix \<open>m\<close>: translate to the
  anchor, rotate, scale, translate back, with no step left out.
\<close>

definition specLeafMatrix :: "LayerTransform \<Rightarrow> Matrix \<Rightarrow> Matrix" where
  "specLeafMatrix t m =
     (let ax = x t + width t * anchorX t;
          ay = y t + height t * anchorY t
      in matMul (matMul (matMul (matMul m (matTranslate ax ay))
                                (matRotate ((rotation t * pi) / 180)))
                        (matScale (scaleX t) (scaleY t)))
                (matTranslate (- ax) (- ay)))"

text \<open>
  The calls the specification prescribes for a rendered leaf, where the rotate call is
  left out at rotation 0 and the scale call at scale factors 1: the render call sees the
  layer's own opacity, its composite operation, the matrix \<open>specLeafMatrix\<close>, and the
  bounds of the transform as they are.
\<close>

definition specLeafCalls :: "LayerTypeDefinition \<Rightarrow> LayerFields \<Rightarrow> Matrix \<Rightarrow> CtxCall list" where
  "specLeafCalls lt a m =
     (let t = transform a;
          ax = x t + width t * anchorX t;
          ay = y t + height t * anchorY t
      in [Save, Translate ax ay]
         @ (if rotation t = 0 then [] else [Rotate ((rotation t * pi) / 180)])
         @ (if scaleX t = 1 \<and> scaleY t = 1 then [] else [Scale (scaleX t) (scaleY t)])
         @ [Translate (- ax) (- ay),
            Render (typeId lt) (properties a)
              \<lparr> boundsX = x t, boundsY = y t, boundsWidth = width t,
                boundsHeight = height t, boundsRotation = rotation t,
                boundsScaleX = scaleX t, boundsScaleY = scaleY t \<rparr>
              (opacity a) (toCompositeOp (blendMode a)) (specLeafMatrix t m),
            Restore])"

section \<open>Example data, after the repository's tests\<close>

text \<open>\<open>makeLayer\<close> of \<^verbatim>\<open>layer-stack.test.ts\<close>, with the overridden fields as arguments.\<close>

definition makeLayer ::
  "string \<Rightarrow> string \<Rightarrow> string \<Rightarrow> real \<Rightarrow> BlendMode \<Rightarrow> DesignLayer list option \<Rightarrow> DesignLayer" where
  "makeLayer i ty n op bm ch =
     Layer \<lparr> layerId = i, layerType = ty, name = n, visible = True, locked = False,
             opacity = op, blendMode = bm,
             transform = \<lparr> x = 0, y = 0, width = 100, height = 100, rotation = 0,
                           scaleX = 1, scaleY = 1, anchorX = 0.5, anchorY = 0.5 \<rparr>,
             properties = [(''fill'', PString ''#ff0000'')] \<rparr> ch"

definition zeroRandom :: "nat \<Rightarrow> real" where
  "zeroRandom = (\<lambda>_. 0)"

definition zeroUuid :: string where
  "zeroUuid = ''00000000-0000-4000-8000-000000000000''"

definition groupStack :: LayerStack where
  "groupStack =
     createLayerStack
       [makeLayer ''group-1'' ''group'' ''Test Layer'' 1 ''normal''
          (Some [makeLayer ''child-1'' ''test:rect'' ''Child'' 1 ''normal'' None])]
       zeroRandom"

definition abStack :: LayerStack where
  "abStack =
     createLayerStack
       [makeLayer ''a'' ''test:rect'' ''Test Layer'' 1 ''normal'' None,
        makeLayer ''b'' ''test:rect'' ''Test Layer'' 1 ''normal'' None]
       zeroRandom"

definition countingRandom :: "nat \<Rightarrow> real" where
  "countingRandom k = real (k mod 16) / 16"

definition countingStack :: LayerStack where
  "countingStack =
     createLayerStack
       [makeLayer ''group-1'' ''group'' ''Test Layer'' 1 ''normal''
          (Some [makeLayer ''child-1'' ''test:rect'' ''Child'' 1 ''normal'' None])]
       countingRandom"

definition newLayer :: DesignLayer where
  "newLayer = makeLayer ''n'' ''test:rect'' ''New'' 1 ''normal'' None"

definition noChange :: PartialTransform where
  "noChange = \<lparr> px = None, py = None, pwidth = None, pheight = None, protation = None,
                pscaleX = None, pscaleY = None, panchorX = None, panchorY = None \<rparr>"

definition rectType :: LayerTypeDefinition where
  "rectType = \<lparr> typeId = ''test:rect'', displayName = ''Rect'', icon = ''rect'',
                category = CShape, propertyEditorId = ''rect-editor'' \<rparr>"

definition thirdsType :: LayerTypeDefinition where
  "thirdsType = \<lparr> typeId = ''guide:thirds'', displayName = ''Rule of Thirds'', icon = ''grid'',
                  category = CGuide, propertyEditorId = ''guide-editor'' \<rparr>"

definition testRegistry :: PluginRegistry where
  "testRegistry t =
     (if t = ''test:rect'' then Some rectType
      else if t = ''guide:thirds'' then Some thirdsType
      else None)"

text \<open>\<open>mockCtx\<close> of \<^verbatim>\<open>compositor.test.ts\<close>.\<close>

definition mockCtx :: Ctx where
  "mockCtx = \<lparr> globalAlpha = 1, globalCompositeOperation = ''source-over'',
               ctm = matIdentity, saved = [], calls = [] \<rparr>"

definition exampleChild :: DesignLayer where
  "exampleChild = makeLayer ''c'' ''test:rect'' ''Child'' 1 ''normal'' None"

definition exampleGroup :: "string \<Rightarrow> DesignLayer" where
  "exampleGroup ty = makeLayer ''g'' ty ''Group'' 0.5 ''normal'' (Some [exampleChild])"

definition rotatedFields :: LayerFields where
  "rotatedFields =
     \<lparr> layerId = ''layer-1'', layerType = ''test:rect'', name = ''Test Layer'', visible = True,
       locked = False, opacity = 0.8, blendMode = ''multiply'',
       transform = \<lparr> x = 10, y = 20, width = 100, height = 100, rotation = 180,
                     scaleX = 1, scaleY = 1, anchorX = 0.5, anchorY = 0.5 \<rparr>,
       properties = [] \<rparr>"

definition hiddenFields :: LayerFields where
  "hiddenFields = rotatedFields\<lparr> visible := False \<rparr>"

section \<open>Properties of the layer stack\<close>

subsection \<open>Auxiliary facts\<close>

lemma toMutable_id: "toMutable l = l"
proof (induction l rule: toMutable.induct)
  case (1 a ch)
  then show ?case by (cases ch) (auto simp: map_idI)
qed

lemma arrayFindIndex_None: "(arrayFindIndex P vs = None) = (\<forall>v\<in>set vs. \<not> P v)"
  by (induction vs) auto

lemma arrayFindIndex_Some:
  "arrayFindIndex P vs = Some i \<Longrightarrow> i < length vs \<and> P (vs ! i) \<and> (\<forall>j<i. \<not> P (vs ! j))"
proof (induction vs arbitrary: i)
  case Nil
  then show ?case by simp
next
  case (Cons v vs)
  show ?case
  proof (cases "P v")
    case True
    with Cons.prems show ?thesis by simp
  next
    case False
    with Cons.prems obtain i' where i': "arrayFindIndex P vs = Some i'" "i = Suc i'"
      by auto
    from Cons.IH[OF i'(1)] False i'(2) show ?thesis
      by (auto simp: nth_Cons split: nat.splits)
  qed
qed

lemma find_arrayFindIndex: "find P vs = map_option (\<lambda>i. vs ! i) (arrayFindIndex P vs)"
  by (induction vs) (auto simp: option.map_comp o_def)

lemma topIds_subset_treeIds: "set (topIds ls) \<subseteq> set (treeIds ls)"
proof
  fix i assume "i \<in> set (topIds ls)"
  then obtain l where l: "l \<in> set ls" "layerId (attrs l) = i"
    by (auto simp: topIds_def)
  have "layerId (attrs l) \<in> set (allIds l)" by (cases l) simp
  with l show "i \<in> set (treeIds ls)" by (auto simp: treeIds_def)
qed

lemma arrayFindIndex_absent:
  assumes "layerId' \<notin> set (topIds ls)"
  shows "arrayFindIndex (hasId layerId') ls = None"
proof -
  have "\<forall>v\<in>set ls. \<not> hasId layerId' v"
    using assms by (auto simp: topIds_def hasId_def)
  then show ?thesis by (simp add: arrayFindIndex_None)
qed

lemma arrayFindIndex_present:
  assumes "layerId' \<in> set (topIds ls)"
  shows "\<exists>idx. arrayFindIndex (hasId layerId') ls = Some idx"
proof -
  from assms have "\<not> (\<forall>v\<in>set ls. \<not> hasId layerId' v)"
    by (auto simp: topIds_def hasId_def)
  then show ?thesis by (auto simp: arrayFindIndex_None[symmetric])
qed

lemma findIndex_absent:
  "layerId' \<notin> set (topIds (layers s)) \<Longrightarrow> findIndex layerId' s = Inl (NotFound layerId')"
  by (simp add: findIndex_def arrayFindIndex_absent)

lemma findIndex_found:
  "arrayFindIndex (hasId layerId') (layers s) = Some idx \<Longrightarrow> findIndex layerId' s = Inr idx"
  by (simp add: findIndex_def)





lemma zero_uuid: "uuid zeroRandom k = (zeroUuid, k + 31)"
  by (simp add: uuid_def uuidChar_def toString16.simps hexDigit_def zeroRandom_def zeroUuid_def)


lemma deepClone_shape:
  "eraseIds (fst (deepCloneLayer R k l)) = eraseIds (suffixNames l)"
  "map eraseIds (fst (deepCloneLayers R k ls)) = map eraseIds (map suffixNames ls)"
proof (induction R k l and R k ls rule: deepCloneLayer_deepCloneLayers.induct)
  case (1 R k a ch)
  show ?case
  proof (cases ch)
    case None
    then show ?thesis by (simp add: split_beta Let_def eraseIds_def suffixNames_def)
  next
    case (Some cs)
    obtain u k1 where u: "uuid R k = (u, k1)" by (cases "uuid R k")
    from "1.IH"[OF refl u[symmetric] refl Some]
    show ?thesis using Some u by (simp add: split_beta Let_def eraseIds_def suffixNames_def)
  qed
next
  case (2 R k)
  then show ?case by simp
next
  case (3 R k c cs)
  obtain c' k1 where c': "deepCloneLayer R k c = (c', k1)" by (cases "deepCloneLayer R k c")
  from "3.IH"(1) "3.IH"(2)[OF refl c'[symmetric]] c'
  show ?case by (simp add: split_beta)
qed











lemma duplicate_found:
  assumes "arrayFindIndex (hasId layerId') (layers s) = Some idx"
  shows "duplicate layerId' s =
           (Inr (layerId (attrs (fst (deepCloneLayer (random s) (drawn s) (layers s ! idx))))),
            onChange LayerAdded
              (s\<lparr> layers := spliceInsert (idx + 1)
                                (fst (deepCloneLayer (random s) (drawn s) (layers s ! idx)))
                                (layers s),
                   drawn := snd (deepCloneLayer (random s) (drawn s) (layers s ! idx)) \<rparr>))"
  by (simp add: duplicate_def findIndex_found[OF assms] split_beta Let_def)

lemma duplicate_clone_position:
  assumes "arrayFindIndex (hasId layerId') (layers s) = Some idx"
  shows "layers (snd (duplicate layerId' s)) ! (idx + 1)
           = fst (deepCloneLayer (random s) (drawn s) (layers s ! idx))"
proof -
  from arrayFindIndex_Some[OF assms] have "idx < length (layers s)" by simp
  then show ?thesis
    by (simp add: duplicate_found[OF assms] onChange_def spliceInsert_def nth_append)
qed

lemmas stack_examples = groupStack_def abStack_def countingStack_def newLayer_def
  createLayerStack_def makeLayer_def topIds_def treeIds_def hasId_def

subsection \<open>C6: a mutation addressed to an absent id fails and changes nothing\<close>

text \<open>
  C6. For a layer id that occurs nowhere in the stack's layer tree, each of
  \<open>updateProperties\<close>, \<open>updateTransform\<close>, \<open>updateBlend\<close>, \<open>reorder\<close> and \<open>duplicate\<close> fails
  with the not-found error, \<open>remove\<close> returns false, and the state left behind is the
  state before the call: the layer tree is unchanged and no change notification was
  recorded.
\<close>

theorem not_found_is_atomic:
  assumes "layerId' \<notin> set (treeIds (layers s))"
  shows "updateProperties layerId' props s = (Inl (NotFound layerId'), s)
       \<and> updateTransform layerId' p s = (Inl (NotFound layerId'), s)
       \<and> updateBlend layerId' b v s = (Inl (NotFound layerId'), s)
       \<and> reorder layerId' newIndex s = (Inl (NotFound layerId'), s)
       \<and> duplicate layerId' s = (Inl (NotFound layerId'), s)
       \<and> remove layerId' s = (False, s)"
proof -
  from assms topIds_subset_treeIds have top: "layerId' \<notin> set (topIds (layers s))" by blast
  note f = findIndex_absent[OF top]
  have "updateProperties layerId' props s = (Inl (NotFound layerId'), s)"
    by (simp add: updateProperties_def f)
  moreover have "updateTransform layerId' p s = (Inl (NotFound layerId'), s)"
    by (simp add: updateTransform_def f)
  moreover have "updateBlend layerId' b v s = (Inl (NotFound layerId'), s)"
    by (simp add: updateBlend_def f)
  moreover have "reorder layerId' newIndex s = (Inl (NotFound layerId'), s)"
    by (simp add: reorder_def f)
  moreover have "duplicate layerId' s = (Inl (NotFound layerId'), s)"
    by (simp add: duplicate_def f)
  moreover have "remove layerId' s = (False, s)"
    by (simp add: remove_def arrayFindIndex_absent[OF top])
  ultimately show ?thesis by simp
qed

text \<open>The stack of one group and an id that is not in it.\<close>

theorem not_found_is_atomic_witness:
  "''nonexistent'' \<notin> set (treeIds (layers groupStack))
   \<and> updateProperties ''nonexistent'' [(''fill'', Some (PString ''#000''))] groupStack
       = (Inl (NotFound ''nonexistent''), groupStack)
   \<and> updateTransform ''nonexistent'' noChange groupStack
       = (Inl (NotFound ''nonexistent''), groupStack)
   \<and> updateBlend ''nonexistent'' (Some ''overlay'') (Some 0.5) groupStack
       = (Inl (NotFound ''nonexistent''), groupStack)
   \<and> reorder ''nonexistent'' 1 groupStack = (Inl (NotFound ''nonexistent''), groupStack)
   \<and> duplicate ''nonexistent'' groupStack = (Inl (NotFound ''nonexistent''), groupStack)
   \<and> remove ''nonexistent'' groupStack = (False, groupStack)"
proof -
  have h: "''nonexistent'' \<notin> set (treeIds (layers groupStack))"
    by (simp add: stack_examples)
  from not_found_is_atomic[OF h] h show ?thesis by simp
qed

subsection \<open>C2: lookup and update search the top-level layers\<close>

text \<open>
  The id \<open>child-1\<close> occurs in the tree of \<open>groupStack\<close>, as the child of the group, and
  \<open>get\<close> returns the not-found result for it; the three updates fail with the not-found
  error.
\<close>

theorem nested_child_lookup_counterexample:
  "''child-1'' \<in> set (treeIds (layers groupStack))
   \<and> get ''child-1'' groupStack = None
   \<and> fst (updateProperties ''child-1'' [(''fill'', Some (PString ''#000''))] groupStack)
       = Inl (NotFound ''child-1'')
   \<and> fst (updateTransform ''child-1'' noChange groupStack) = Inl (NotFound ''child-1'')
   \<and> fst (updateBlend ''child-1'' (Some ''overlay'') None groupStack) = Inl (NotFound ''child-1'')"
  by (simp add: stack_examples get_def updateProperties_def updateTransform_def updateBlend_def
      findIndex_def)

text \<open>
  C2, as the code has it. \<open>get\<close> and the updates search the top-level sequence only: for
  the id of a top-level layer \<open>get\<close> returns a top-level layer with that id and
  \<open>updateProperties\<close>, \<open>updateTransform\<close> and \<open>updateBlend\<close> succeed; for an id that is not
  the id of a top-level layer, also when it is the id of a nested child, \<open>get\<close> returns
  the not-found result and the three updates fail with the not-found error.
\<close>

theorem lookup_searches_top_level:
  "(layerId' \<in> set (topIds (layers s)) \<longrightarrow>
      (\<exists>l. get layerId' s = Some l \<and> l \<in> set (layers s) \<and> layerId (attrs l) = layerId')
      \<and> fst (updateProperties layerId' props s) = Inr ()
      \<and> fst (updateTransform layerId' p s) = Inr ()
      \<and> fst (updateBlend layerId' b v s) = Inr ())
   \<and> (layerId' \<notin> set (topIds (layers s)) \<longrightarrow>
      get layerId' s = None
      \<and> fst (updateProperties layerId' props s) = Inl (NotFound layerId')
      \<and> fst (updateTransform layerId' p s) = Inl (NotFound layerId')
      \<and> fst (updateBlend layerId' b v s) = Inl (NotFound layerId'))"
proof (intro conjI impI)
  assume top: "layerId' \<in> set (topIds (layers s))"
  from arrayFindIndex_present[OF top] obtain idx where
    afi: "arrayFindIndex (hasId layerId') (layers s) = Some idx" by blast
  note f = findIndex_found[OF afi]
  from arrayFindIndex_Some[OF afi]
  show "\<exists>l. get layerId' s = Some l \<and> l \<in> set (layers s) \<and> layerId (attrs l) = layerId'"
    by (simp add: get_def find_arrayFindIndex afi hasId_def)
  show "fst (updateProperties layerId' props s) = Inr ()"
    by (simp add: updateProperties_def f Let_def)
  show "fst (updateTransform layerId' p s) = Inr ()"
    by (simp add: updateTransform_def f Let_def)
  show "fst (updateBlend layerId' b v s) = Inr ()"
    by (simp add: updateBlend_def f Let_def)
next
  assume top: "layerId' \<notin> set (topIds (layers s))"
  note f = findIndex_absent[OF top]
  show "get layerId' s = None"
    by (simp add: get_def find_arrayFindIndex arrayFindIndex_absent[OF top])
  show "fst (updateProperties layerId' props s) = Inl (NotFound layerId')"
    by (simp add: updateProperties_def f)
  show "fst (updateTransform layerId' p s) = Inl (NotFound layerId')"
    by (simp add: updateTransform_def f)
  show "fst (updateBlend layerId' b v s) = Inl (NotFound layerId')"
    by (simp add: updateBlend_def f)
qed

text \<open>Both cases on \<open>groupStack\<close>: the group's id is found, its child's id is not.\<close>

theorem lookup_searches_top_level_witness:
  "(''group-1'' \<in> set (topIds (layers groupStack))
      \<and> (\<exists>l. get ''group-1'' groupStack = Some l \<and> l \<in> set (layers groupStack)
               \<and> layerId (attrs l) = ''group-1'')
      \<and> fst (updateProperties ''group-1'' [(''fill'', Some (PString ''#000''))] groupStack) = Inr ()
      \<and> fst (updateTransform ''group-1'' noChange groupStack) = Inr ()
      \<and> fst (updateBlend ''group-1'' (Some ''overlay'') None groupStack) = Inr ())
   \<and> (''child-1'' \<notin> set (topIds (layers groupStack))
      \<and> get ''child-1'' groupStack = None
      \<and> fst (updateProperties ''child-1'' [(''fill'', Some (PString ''#000''))] groupStack)
          = Inl (NotFound ''child-1'')
      \<and> fst (updateTransform ''child-1'' noChange groupStack) = Inl (NotFound ''child-1'')
      \<and> fst (updateBlend ''child-1'' (Some ''overlay'') None groupStack)
          = Inl (NotFound ''child-1''))"
proof -
  have h1: "''group-1'' \<in> set (topIds (layers groupStack))" by (simp add: stack_examples)
  have h2: "''child-1'' \<notin> set (topIds (layers groupStack))" by (simp add: stack_examples)
  from lookup_searches_top_level[of "''group-1''" groupStack
         "[(''fill'', Some (PString ''#000''))]" noChange "Some ''overlay''" None]
       lookup_searches_top_level[of "''child-1''" groupStack
         "[(''fill'', Some (PString ''#000''))]" noChange "Some ''overlay''" None]
       h1 h2
  show ?thesis by simp
qed

subsection \<open>C5: where add inserts\<close>

text \<open>
  Adding at index \<open>-1\<close> to the stack \<open>[a, b]\<close>: the clamped index would be 0, and the new
  layer is at position 2, the end.
\<close>

theorem add_negative_index_counterexample:
  "max 0 (min (- 1) (int (length (layers abStack)))) = 0
   \<and> map (\<lambda>l. layerId (attrs l)) (layers (add newLayer (Some (- 1)) abStack)) = [''a'', ''b'', ''n'']
   \<and> layers (add newLayer (Some (- 1)) abStack) ! 0 \<noteq> newLayer
   \<and> layers (add newLayer (Some (- 1)) abStack) ! 2 = newLayer"
  by (simp add: stack_examples add_def onChange_def spliceInsert_def)

text \<open>
  C5, as the code has it. \<open>add(layer, index)\<close> inserts at \<open>index\<close> when
  \<open>0 \<le> index \<le> length\<close>, and appends otherwise: when no index is given, when the index is
  negative, and when it is greater than the length. The layer is then at position
  \<open>index\<close>, respectively \<open>length\<close>, and one \<open>layer-added\<close> notification is recorded in
  every case.
\<close>

theorem add_inserts_in_range_or_appends:
  "layers (add layer index s) =
     (case index of
        Some i \<Rightarrow> if 0 \<le> i \<and> i \<le> int (length (layers s))
                  then take (nat i) (layers s) @ [layer] @ drop (nat i) (layers s)
                  else layers s @ [layer]
      | None \<Rightarrow> layers s @ [layer])
   \<and> layers (add layer index s) !
       (case index of
          Some i \<Rightarrow> if 0 \<le> i \<and> i \<le> int (length (layers s)) then nat i else length (layers s)
        | None \<Rightarrow> length (layers s)) = layer
   \<and> changes (add layer index s) = changes s @ [LayerAdded]"
  by (auto simp add: add_def onChange_def toMutable_id spliceInsert_def nth_append
      split: option.splits)

text \<open>Adding to \<open>[a, b]\<close> at index 1, at index 3 and without an index.\<close>

theorem add_inserts_in_range_or_appends_witness:
  "map (\<lambda>l. layerId (attrs l)) (layers (add newLayer (Some 1) abStack)) = [''a'', ''n'', ''b'']
   \<and> map (\<lambda>l. layerId (attrs l)) (layers (add newLayer (Some 3) abStack)) = [''a'', ''b'', ''n'']
   \<and> map (\<lambda>l. layerId (attrs l)) (layers (add newLayer None abStack)) = [''a'', ''b'', ''n'']
   \<and> changes (add newLayer (Some 1) abStack) = [LayerAdded]"
  using add_inserts_in_range_or_appends[of newLayer "Some 1" abStack]
        add_inserts_in_range_or_appends[of newLayer "Some 3" abStack]
        add_inserts_in_range_or_appends[of newLayer None abStack]
  by (simp add: stack_examples)

subsection \<open>C4: the names of a duplicated subtree\<close>

text \<open>
  Duplicating the group of \<open>groupStack\<close>, whose child is named \<open>Child\<close>: the clone's child
  is named \<open>Child copy\<close>.
\<close>

theorem duplicate_descendant_name_counterexample:
  "arrayFindIndex (hasId ''group-1'') (layers groupStack) = Some 0
   \<and> map (\<lambda>l. name (attrs l)) (the (children (layers groupStack ! 0))) = [''Child'']
   \<and> map (\<lambda>l. name (attrs l))
        (the (children (layers (snd (duplicate ''group-1'' groupStack)) ! 1))) = [''Child copy'']"
  by (simp add: stack_examples duplicate_def findIndex_def zero_uuid onChange_def
      spliceInsert_def split_beta Let_def)

text \<open>
  C4, as the code has it. \<open>duplicate(id)\<close> appends \<open>" copy"\<close> to the name of every node of
  the cloned subtree, descendants included: apart from the ids, the clone inserted after
  the original is the original with every name suffixed.
\<close>

theorem duplicate_suffixes_every_name:
  assumes "arrayFindIndex (hasId layerId') (layers s) = Some idx"
  shows "eraseIds (layers (snd (duplicate layerId' s)) ! (idx + 1))
           = eraseIds (suffixNames (layers s ! idx))"
  using duplicate_clone_position[OF assms] by (simp add: deepClone_shape)

text \<open>The clone of the group of \<open>groupStack\<close>, with its ids erased.\<close>

theorem duplicate_suffixes_every_name_witness:
  "arrayFindIndex (hasId ''group-1'') (layers groupStack) = Some 0
   \<and> eraseIds (layers (snd (duplicate ''group-1'' groupStack)) ! (0 + 1))
       = Layer \<lparr> layerId = [], layerType = ''group'', name = ''Test Layer copy'', visible = True,
                 locked = False, opacity = 1, blendMode = ''normal'',
                 transform = \<lparr> x = 0, y = 0, width = 100, height = 100, rotation = 0,
                               scaleX = 1, scaleY = 1, anchorX = 0.5, anchorY = 0.5 \<rparr>,
                 properties = [(''fill'', PString ''#ff0000'')] \<rparr>
           (Some [Layer \<lparr> layerId = [], layerType = ''test:rect'', name = ''Child copy'',
                   visible = True, locked = False, opacity = 1, blendMode = ''normal'',
                   transform = \<lparr> x = 0, y = 0, width = 100, height = 100, rotation = 0,
                                 scaleX = 1, scaleY = 1, anchorX = 0.5, anchorY = 0.5 \<rparr>,
                   properties = [(''fill'', PString ''#ff0000'')] \<rparr> None])"
proof -
  have h: "arrayFindIndex (hasId ''group-1'') (layers groupStack) = Some 0"
    by (simp add: stack_examples)
  from duplicate_suffixes_every_name[OF h] h show ?thesis
    by (simp add: stack_examples eraseIds_def suffixNames_def)
qed

subsection \<open>C9: duplicate\<close>



section \<open>Properties of the compositor\<close>

subsection \<open>Auxiliary facts\<close>

lemma matMul_rotate0: "matMul m (matRotate 0) = m"
  by (cases m) (simp add: matRotate_def)

lemma matMul_scale1: "matMul m (matScale 1 1) = m"
  by (cases m) (simp add: matScale_def)

lemma renderLeaf_calls:
  "renderLeaf lt a ctx = ctx\<lparr> calls := calls ctx @ specLeafCalls lt a (ctm ctx) \<rparr>"
  by (simp add: renderLeaf_def specLeafCalls_def specLeafMatrix_def Let_def ctxSave_def
      ctxRestore_def ctxTranslate_def ctxRotate_def ctxScale_def render_def recordCall_def
      matMul_rotate0 matMul_scale1)

lemma compositeLayer_leaf:
  assumes "visible a" "ch = None \<or> ch = Some []" "registry (layerType a) = Some lt"
    "includeGuides \<or> category lt \<noteq> CGuide"
  shows "compositeLayer registry includeGuides (Layer a ch) ctx = renderLeaf lt a ctx"
  using assms by auto

lemma compositeLayer_invisible:
  "\<not> visible (attrs l) \<Longrightarrow> compositeLayer registry includeGuides l ctx = ctx"
  by (cases l) simp

lemma composite_conceal:
  "compositeLayer registry includeGuides (conceal l) ctx = compositeLayer registry includeGuides l ctx"
  "compositeEach registry includeGuides (map conceal ls) ctx = compositeEach registry includeGuides ls ctx"
proof (induction registry includeGuides l ctx and registry includeGuides ls ctx
    rule: compositeLayer_compositeEach.induct)
  case (1 registry includeGuides a ch ctx)
  show ?case
  proof (cases "visible a \<and> \<not> (\<not> includeGuides \<and> map_option category (registry (layerType a)) = Some CGuide)")
    case False
    then show ?thesis by auto
  next
    case True
    show ?thesis
    proof (cases ch)
      case None
      then show ?thesis by simp
    next
      case (Some cs)
      show ?thesis
      proof (cases cs)
        case Nil
        with Some show ?thesis by simp
      next
        case (Cons c cs')
        from True have v: "visible a" and
          g: "\<not> (\<not> includeGuides \<and> map_option category (registry (layerType a)) = Some CGuide)"
          by auto
        from "1.IH"[OF _ refl _ Some Cons refl refl refl] v g
        have "compositeEach registry includeGuides (map conceal (c # cs'))
                  ((ctxSave ctx)\<lparr>globalAlpha := globalAlpha (ctxSave ctx) * opacity a,
                       globalCompositeOperation := toCompositeOp (blendMode a)\<rparr>)
            = compositeEach registry includeGuides (c # cs')
                  ((ctxSave ctx)\<lparr>globalAlpha := globalAlpha (ctxSave ctx) * opacity a,
                       globalCompositeOperation := toCompositeOp (blendMode a)\<rparr>)"
          by simp
        with Some Cons True show ?thesis by (auto simp add: Let_def)
      qed
    qed
  qed
next
  case (2 registry includeGuides ctx)
  then show ?case by simp
next
  case (3 registry includeGuides l ls ctx)
  then show ?case by simp
qed

lemmas ctx_ops = ctxDrawImage_def recordCall_def ctxSave_def ctxRestore_def ctxTranslate_def
  ctxRotate_def ctxScale_def render_def renderLeaf_def toCompositeOp_def matIdentity_def
  matTranslate_def matRotate_def matScale_def

lemmas compositor_examples = exampleChild_def exampleGroup_def makeLayer_def testRegistry_def
  mockCtx_def rotatedFields_def hiddenFields_def rectType_def thirdsType_def

subsection \<open>C1: the opacity a nested leaf is rendered at\<close>

text \<open>
  C1. A group multiplies the context's alpha by its opacity, and a leaf then assigns its
  own opacity to the context's alpha. For a leaf at opacity 1 inside a group at opacity
  0.5, composited on a context at alpha 1, the render call of the leaf sees alpha 1, not
  the product 0.5.
\<close>

theorem nested_leaf_alpha_is_own_opacity:
  "calls (compositeDesignLayers [exampleGroup ''group''] testRegistry mockCtx None) =
     [DrawImage 0 0, Save, Save, Translate 50 50, Translate (- 50) (- 50),
      Render ''test:rect'' [(''fill'', PString ''#ff0000'')]
        \<lparr> boundsX = 0, boundsY = 0, boundsWidth = 100, boundsHeight = 100, boundsRotation = 0,
          boundsScaleX = 1, boundsScaleY = 1 \<rparr>
        1 ''source-over'' (1, 0, 0, 1, 0, 0),
      Restore, Restore]"
  by (simp add: compositeDesignLayers_def orElse_def compositor_examples ctx_ops Let_def)

subsection \<open>C3: what a group's output depends on\<close>

text \<open>
  Two groups that differ in their type tag only, composited without guides: the one
  whose tag resolves to a guide type is skipped with its child, the one whose tag does not
  resolve has its child rendered.
\<close>

theorem guide_group_counterexample:
  "calls (compositeDesignLayers [exampleGroup ''guide:thirds''] testRegistry mockCtx None)
     = [DrawImage 0 0]
   \<and> calls (compositeDesignLayers [exampleGroup ''group''] testRegistry mockCtx None)
     = [DrawImage 0 0, Save, Save, Translate 50 50, Translate (- 50) (- 50),
      Render ''test:rect'' [(''fill'', PString ''#ff0000'')]
        \<lparr> boundsX = 0, boundsY = 0, boundsWidth = 100, boundsHeight = 100, boundsRotation = 0,
          boundsScaleX = 1, boundsScaleY = 1 \<rparr>
        1 ''source-over'' (1, 0, 0, 1, 0, 0),
      Restore, Restore]"
  by (simp add: compositeDesignLayers_def orElse_def compositor_examples ctx_ops Let_def)

text \<open>
  C3, as the code has it. The guide exclusion is decided on the type tag before the
  children are looked at, so a group whose tag resolves to the category guide is skipped
  together with its children unless guides are included. For a layer with a non-empty
  child list that is not excluded in this way, the compositor ignores the type tag and the
  properties: two such layers with the same children that agree on visibility, opacity and
  blend mode are composited alike, whatever their other fields are.
\<close>

theorem group_output_depends_on:
  "(\<not> includeGuides \<and> map_option category (registry (layerType a)) = Some CGuide
      \<longrightarrow> compositeLayer registry includeGuides (Layer a (Some (c # cs))) ctx = ctx)
   \<and> (visible a' = visible a \<and> opacity a' = opacity a \<and> blendMode a' = blendMode a
       \<and> (includeGuides \<or> map_option category (registry (layerType a)) \<noteq> Some CGuide)
       \<and> (includeGuides \<or> map_option category (registry (layerType a')) \<noteq> Some CGuide)
      \<longrightarrow> compositeLayer registry includeGuides (Layer a' (Some (c # cs))) ctx
          = compositeLayer registry includeGuides (Layer a (Some (c # cs))) ctx)"
proof (intro conjI impI)
  assume "\<not> includeGuides \<and> map_option category (registry (layerType a)) = Some CGuide"
  then show "compositeLayer registry includeGuides (Layer a (Some (c # cs))) ctx = ctx"
    by simp
next
  assume h: "visible a' = visible a \<and> opacity a' = opacity a \<and> blendMode a' = blendMode a
       \<and> (includeGuides \<or> map_option category (registry (layerType a)) \<noteq> Some CGuide)
       \<and> (includeGuides \<or> map_option category (registry (layerType a')) \<noteq> Some CGuide)"
  show "compositeLayer registry includeGuides (Layer a' (Some (c # cs))) ctx
          = compositeLayer registry includeGuides (Layer a (Some (c # cs))) ctx"
  proof (cases "visible a")
    case False
    with h show ?thesis by simp
  next
    case True
    define scope where
      "scope = ctxRestore (compositeEach registry includeGuides (c # cs)
                 ((ctxSave ctx)\<lparr> globalAlpha := globalAlpha (ctxSave ctx) * opacity a,
                      globalCompositeOperation := toCompositeOp (blendMode a) \<rparr>))"
    from True h have "compositeLayer registry includeGuides (Layer a (Some (c # cs))) ctx = scope"
      by (auto simp: Let_def scope_def)
    moreover from True h
    have "compositeLayer registry includeGuides (Layer a' (Some (c # cs))) ctx = scope"
      by (auto simp: Let_def scope_def)
    ultimately show ?thesis by simp
  qed
qed

text \<open>
  A group tagged with a guide type, and a group with an unresolved tag next to one with
  the tag of a shape type, all with the same child.
\<close>

theorem group_output_depends_on_witness:
  "(map_option category (testRegistry (layerType (rotatedFields\<lparr> layerType := ''guide:thirds'' \<rparr>)))
      = Some CGuide
    \<and> compositeLayer testRegistry False
         (Layer (rotatedFields\<lparr> layerType := ''guide:thirds'' \<rparr>) (Some [exampleChild])) mockCtx
       = mockCtx)
   \<and> (visible (rotatedFields\<lparr> layerType := ''group'', properties := [(''fill'', PNull)] \<rparr>)
        = visible rotatedFields
      \<and> opacity (rotatedFields\<lparr> layerType := ''group'', properties := [(''fill'', PNull)] \<rparr>)
        = opacity rotatedFields
      \<and> blendMode (rotatedFields\<lparr> layerType := ''group'', properties := [(''fill'', PNull)] \<rparr>)
        = blendMode rotatedFields
      \<and> map_option category (testRegistry (layerType rotatedFields)) \<noteq> Some CGuide
      \<and> map_option category (testRegistry (layerType
            (rotatedFields\<lparr> layerType := ''group'', properties := [(''fill'', PNull)] \<rparr>)))
          \<noteq> Some CGuide
      \<and> compositeLayer testRegistry False
           (Layer (rotatedFields\<lparr> layerType := ''group'', properties := [(''fill'', PNull)] \<rparr>)
              (Some [exampleChild])) mockCtx
        = compositeLayer testRegistry False (Layer rotatedFields (Some [exampleChild])) mockCtx)"
proof -
  define g where "g = rotatedFields\<lparr> layerType := ''group'', properties := [(''fill'', PNull)] \<rparr>"
  define t where "t = rotatedFields\<lparr> layerType := ''guide:thirds'' \<rparr>"
  have h0: "map_option category (testRegistry (layerType t)) = Some CGuide"
    by (simp add: t_def compositor_examples)
  have h1: "visible g = visible rotatedFields" by (simp add: g_def)
  have h2: "opacity g = opacity rotatedFields" by (simp add: g_def)
  have h3: "blendMode g = blendMode rotatedFields" by (simp add: g_def)
  have h4: "map_option category (testRegistry (layerType rotatedFields)) \<noteq> Some CGuide"
    by (simp add: compositor_examples)
  have h5: "map_option category (testRegistry (layerType g)) \<noteq> Some CGuide"
    by (simp add: g_def compositor_examples)
  from group_output_depends_on[where registry = testRegistry and a = t
        and includeGuides = False and c = exampleChild and cs = "[]" and ctx = mockCtx] h0
  have p1: "compositeLayer testRegistry False (Layer t (Some [exampleChild])) mockCtx = mockCtx"
    by simp
  from group_output_depends_on[where registry = testRegistry and a' = g
        and a = rotatedFields and includeGuides = False and c = exampleChild and cs = "[]"
        and ctx = mockCtx] h1 h2 h3 h4 h5
  have p2: "compositeLayer testRegistry False (Layer g (Some [exampleChild])) mockCtx
          = compositeLayer testRegistry False (Layer rotatedFields (Some [exampleChild])) mockCtx"
    by simp
  from h0 h1 h2 h3 h4 h5 p1 p2 show ?thesis
    unfolding g_def t_def by blast
qed

subsection \<open>C7: the transform of a leaf\<close>

text \<open>
  C7. For a visible layer without children whose type resolves and is not an excluded
  guide, the compositor calls, in this order: save; translate to the anchor
  \<open>(x + width * anchorX, y + height * anchorY)\<close>; rotate by the rotation in radians, unless
  the rotation is 0; scale by \<open>(scaleX, scaleY)\<close>, unless both are 1; translate back; the
  render function of the resolved type, with the layer's properties and the bounds of
  the transform as they are; restore. The matrix in force at the render call is the
  product of all four steps, the left-out ones included, and after the call the context
  is in the state it was in before, apart from the calls recorded.
\<close>

theorem leaf_transform_order:
  assumes "visible a" "ch = None \<or> ch = Some []" "registry (layerType a) = Some lt"
    "includeGuides \<or> category lt \<noteq> CGuide"
  shows "compositeLayer registry includeGuides (Layer a ch) ctx
       = ctx\<lparr> calls := calls ctx @ specLeafCalls lt a (ctm ctx) \<rparr>"
  using compositeLayer_leaf[where registry = registry, OF assms] by (simp add: renderLeaf_calls)

text \<open>A layer rotated by 180 degrees about its centre \<open>(60, 70)\<close>.\<close>

theorem leaf_transform_order_witness:
  "visible rotatedFields \<and> testRegistry (layerType rotatedFields) = Some rectType
   \<and> category rectType \<noteq> CGuide
   \<and> compositeLayer testRegistry False (Layer rotatedFields None) mockCtx
       = mockCtx\<lparr> calls :=
           [Save, Translate 60 70, Rotate pi, Translate (- 60) (- 70),
            Render ''test:rect'' []
              \<lparr> boundsX = 10, boundsY = 20, boundsWidth = 100, boundsHeight = 100,
                boundsRotation = 180, boundsScaleX = 1, boundsScaleY = 1 \<rparr>
              0.8 ''multiply'' (- 1, 0, 0, - 1, 120, 140),
            Restore] \<rparr>"
proof -
  have v: "visible rotatedFields" by (simp add: rotatedFields_def)
  have c: "(None :: DesignLayer list option) = None \<or> None = Some []" by simp
  have r: "testRegistry (layerType rotatedFields) = Some rectType"
    by (simp add: rotatedFields_def testRegistry_def)
  have g: "False \<or> category rectType \<noteq> CGuide" by (simp add: rectType_def)
  from leaf_transform_order[where registry = testRegistry and ctx = mockCtx, OF v c r g] v r g
  show ?thesis
    by (simp add: specLeafCalls_def specLeafMatrix_def rotatedFields_def rectType_def mockCtx_def
        toCompositeOp_def matIdentity_def matTranslate_def matRotate_def matScale_def Let_def)
qed

subsection \<open>C8: invisible layers\<close>

text \<open>
  C8. Compositing a layer whose \<open>visible\<close> flag is false leaves the context as it is, with
  no call recorded, whatever its descendants are; and compositing a tree gives the same
  result as compositing the tree in which the descendants of every invisible layer, at
  any depth, are cut off. So no render call is made for an invisible layer or for any of
  its descendants, visible or not.
\<close>

theorem invisible_layers_are_skipped:
  "(\<not> visible (attrs l) \<longrightarrow> compositeLayer registry includeGuides l ctx = ctx)
   \<and> compositeDesignLayers (map conceal ls) registry ctx opts
       = compositeDesignLayers ls registry ctx opts"
proof
  show "\<not> visible (attrs l) \<longrightarrow> compositeLayer registry includeGuides l ctx = ctx"
    by (simp add: compositeLayer_invisible)
next
  have "compositeEach registry (orElse opts False) (map conceal ls) (ctxDrawImage 0 0 ctx)
          = compositeEach registry (orElse opts False) ls (ctxDrawImage 0 0 ctx)"
    by (rule composite_conceal(2))
  then show "compositeDesignLayers (map conceal ls) registry ctx opts
               = compositeDesignLayers ls registry ctx opts"
    by (simp add: compositeDesignLayers_def Let_def)
qed

text \<open>An invisible group with a visible child, on its own and nested in a visible group.\<close>

theorem invisible_layers_are_skipped_witness:
  "\<not> visible (attrs (Layer hiddenFields (Some [exampleChild])))
   \<and> compositeLayer testRegistry False (Layer hiddenFields (Some [exampleChild])) mockCtx = mockCtx
   \<and> calls (compositeDesignLayers
        [makeLayer ''g'' ''group'' ''Group'' 1 ''normal''
           (Some [Layer hiddenFields (Some [exampleChild])])] testRegistry mockCtx None)
     = [DrawImage 0 0, Save, Restore]"
proof -
  have h: "\<not> visible (attrs (Layer hiddenFields (Some [exampleChild])))"
    by (simp add: hiddenFields_def)
  from invisible_layers_are_skipped[of "Layer hiddenFields (Some [exampleChild])" testRegistry
         False mockCtx
         "[makeLayer ''g'' ''group'' ''Group'' 1 ''normal''
             (Some [Layer hiddenFields (Some [exampleChild])])]" None] h
  show ?thesis
    by (simp add: compositeDesignLayers_def orElse_def compositor_examples ctx_ops Let_def)
qed

subsection \<open>C10: an empty child list\<close>

text \<open>
  C10. A layer whose \<open>children\<close> array is present and empty is composited exactly as the
  same layer without a \<open>children\<close> field. If it is visible and its type resolves and is
  not an excluded guide, it takes the leaf path: its own render function is called with
  its own properties at its own opacity, inside a single save and restore.
\<close>

theorem empty_children_is_leaf:
  "compositeLayer registry includeGuides (Layer a (Some [])) ctx
     = compositeLayer registry includeGuides (Layer a None) ctx
   \<and> (visible a \<and> registry (layerType a) = Some lt \<and> (includeGuides \<or> category lt \<noteq> CGuide)
        \<longrightarrow> compositeLayer registry includeGuides (Layer a (Some [])) ctx = renderLeaf lt a ctx
          \<and> compositeLayer registry includeGuides (Layer a (Some [])) ctx
              = ctx\<lparr> calls := calls ctx @ specLeafCalls lt a (ctm ctx) \<rparr>)"
proof (intro conjI impI)
  show "compositeLayer registry includeGuides (Layer a (Some [])) ctx
          = compositeLayer registry includeGuides (Layer a None) ctx"
    by (auto simp: Let_def)
next
  assume h: "visible a \<and> registry (layerType a) = Some lt
               \<and> (includeGuides \<or> category lt \<noteq> CGuide)"
  then have leaf: "compositeLayer registry includeGuides (Layer a (Some [])) ctx = renderLeaf lt a ctx"
    using compositeLayer_leaf[where registry = registry and ch = "Some []"] by blast
  then show "compositeLayer registry includeGuides (Layer a (Some [])) ctx = renderLeaf lt a ctx" .
  from leaf show "compositeLayer registry includeGuides (Layer a (Some [])) ctx
              = ctx\<lparr> calls := calls ctx @ specLeafCalls lt a (ctm ctx) \<rparr>"
    by (simp only: renderLeaf_calls)
qed

text \<open>The rotated layer with an empty child list.\<close>

theorem empty_children_is_leaf_witness:
  "visible rotatedFields \<and> testRegistry (layerType rotatedFields) = Some rectType
   \<and> category rectType \<noteq> CGuide
   \<and> compositeLayer testRegistry False (Layer rotatedFields (Some [])) mockCtx
       = mockCtx\<lparr> calls :=
           [Save, Translate 60 70, Rotate pi, Translate (- 60) (- 70),
            Render ''test:rect'' []
              \<lparr> boundsX = 10, boundsY = 20, boundsWidth = 100, boundsHeight = 100,
                boundsRotation = 180, boundsScaleX = 1, boundsScaleY = 1 \<rparr>
              0.8 ''multiply'' (- 1, 0, 0, - 1, 120, 140),
            Restore] \<rparr>"
proof -
  have v: "visible rotatedFields" by (simp add: rotatedFields_def)
  have r: "testRegistry (layerType rotatedFields) = Some rectType"
    by (simp add: rotatedFields_def testRegistry_def)
  have g: "category rectType \<noteq> CGuide" by (simp add: rectType_def)
  from empty_children_is_leaf[of testRegistry False rotatedFields mockCtx rectType] v r g
  show ?thesis
    by (simp add: specLeafCalls_def specLeafMatrix_def rotatedFields_def rectType_def mockCtx_def
        toCompositeOp_def matIdentity_def matTranslate_def matRotate_def matScale_def Let_def)
qed

end
